theory Spec2Isabelle
  imports Main "HOL-Library.Word" "HOL-Library.Signed_Division"
begin

unbundle bit_operations_syntax

section \<open>The GPIO lines and the HAL calls\<close>

text \<open>
  The driver owns three output lines (CLK, MOSI, CS) and reads two input lines (IRQ, MISO).
  A pin level is a boolean: \<open>True\<close> is \<open>GPIO_PIN_SET\<close> (non-zero), \<open>False\<close> is
  \<open>GPIO_PIN_RESET\<close> (zero).
\<close>

datatype out_line = TP_CLK | TP_MOSI | TP_CS

datatype in_line = TP_IRQ | TP_MISO

datatype event = PinWrite out_line bool | PinRead in_line bool

text \<open>
  The touch controller is outside the program. Its answers are given as the level each input
  line shows at its k-th read (counted from power-up), for every k.
\<close>

record inputs =
  irq_level :: "nat \<Rightarrow> bool"
  miso_level :: "nat \<Rightarrow> bool"

text \<open>
  The peripheral state: the level driven on each output line, how many times each input line
  has been read so far, and the log of every HAL call in program order.

  Modelled from the spec: \<open>HAL_GPIO_WritePin\<close> and \<open>HAL_GPIO_ReadPin\<close> belong to the
  vendor library, which is not among the sources. Following the spec's capability interface
  (set a line, clear a line, read a line), a write drives the level on an output line and a
  read returns the level the input line shows at that moment; both are logged.
\<close>

record gpio =
  clk :: bool
  mosi :: bool
  cs :: bool
  irq_reads :: nat
  miso_reads :: nat
  trace :: "event list"

fun HAL_GPIO_WritePin :: "out_line \<Rightarrow> bool \<Rightarrow> gpio \<Rightarrow> gpio" where
  "HAL_GPIO_WritePin TP_CLK v s = s\<lparr>clk := v, trace := trace s @ [PinWrite TP_CLK v]\<rparr>"
| "HAL_GPIO_WritePin TP_MOSI v s = s\<lparr>mosi := v, trace := trace s @ [PinWrite TP_MOSI v]\<rparr>"
| "HAL_GPIO_WritePin TP_CS v s = s\<lparr>cs := v, trace := trace s @ [PinWrite TP_CS v]\<rparr>"

fun HAL_GPIO_ReadPin :: "inputs \<Rightarrow> in_line \<Rightarrow> gpio \<Rightarrow> bool \<times> gpio" where
  "HAL_GPIO_ReadPin env TP_IRQ s =
     (let v = irq_level env (irq_reads s)
      in (v, s\<lparr>irq_reads := irq_reads s + 1, trace := trace s @ [PinRead TP_IRQ v]\<rparr>))"
| "HAL_GPIO_ReadPin env TP_MISO s =
     (let v = miso_level env (miso_reads s)
      in (v, s\<lparr>miso_reads := miso_reads s + 1, trace := trace s @ [PinRead TP_MISO v]\<rparr>))"

section \<open>Serial transport\<close>

text \<open>\<open>TP_Read\<close>: the loop counter is a \<open>uint8_t\<close>, the shifted-in value a \<open>uint16_t\<close>.\<close>

function TP_Read_loop :: "inputs \<Rightarrow> 8 word \<Rightarrow> 16 word \<Rightarrow> gpio \<Rightarrow> 16 word \<times> gpio" where
  "TP_Read_loop env i val s =
     (if i > 0 then
        let val = push_bit 1 val;
            s = HAL_GPIO_WritePin TP_CLK True s;
            s = HAL_GPIO_WritePin TP_CLK False s;
            (b, s) = HAL_GPIO_ReadPin env TP_MISO s;
            val = (if b then val + 1 else val)
        in TP_Read_loop env (i - 1) val s
      else (val, s))"
  by pat_completeness auto
termination
  by (relation "measure (\<lambda>(env, i, val, s). unat i)")
     (auto simp: unat_minus_one word_greater_zero_iff unat_gt_0)

declare TP_Read_loop.simps [simp del]

definition TP_Read :: "inputs \<Rightarrow> gpio \<Rightarrow> 16 word \<times> gpio" where
  "TP_Read env s = TP_Read_loop env 16 0 s"

text \<open>\<open>TP_Write\<close>: counter and value are both \<open>uint8_t\<close>.\<close>

function TP_Write_loop :: "8 word \<Rightarrow> 8 word \<Rightarrow> gpio \<Rightarrow> gpio" where
  "TP_Write_loop i val s =
     (if i > 0 then
        let s = (if val AND 0x80 \<noteq> 0
                 then HAL_GPIO_WritePin TP_MOSI True s
                 else HAL_GPIO_WritePin TP_MOSI False s);
            val = push_bit 1 val;
            s = HAL_GPIO_WritePin TP_CLK True s;
            s = HAL_GPIO_WritePin TP_CLK False s
        in TP_Write_loop (i - 1) val s
      else s)"
  by pat_completeness auto
termination
  by (relation "measure (\<lambda>(i, val, s). unat i)")
     (auto simp: unat_minus_one word_greater_zero_iff unat_gt_0)

declare TP_Write_loop.simps [simp del]

definition TP_Write :: "8 word \<Rightarrow> gpio \<Rightarrow> gpio" where
  "TP_Write val s = TP_Write_loop 8 val (HAL_GPIO_WritePin TP_CLK False s)"

section \<open>Press detection\<close>

definition TOUCHPAD_NOT_PRESSED :: "8 word" where
  "TOUCHPAD_NOT_PRESSED = 0"

definition TOUCHPAD_PRESSED :: "8 word" where
  "TOUCHPAD_PRESSED = 1"

definition TP_Touchpad_Pressed :: "inputs \<Rightarrow> gpio \<Rightarrow> 8 word \<times> gpio" where
  "TP_Touchpad_Pressed env s =
     (let (v, s) = HAL_GPIO_ReadPin env TP_IRQ s
      in if \<not> v then (TOUCHPAD_PRESSED, s) else (TOUCHPAD_NOT_PRESSED, s))"

section \<open>Sampling and transform\<close>

text \<open>
  Modelled from the spec: the header \<open>ILI9341_Touchscreen.h\<close>, which defines the configuration
  constants, is not among the sources, so the constants are parameters of the model. The
  sample budget is compared with and copied into a \<open>uint32_t\<close>, the two command bytes are
  passed as \<open>uint8_t\<close>, and the calibration constants are integer constants: the transform is
  integer arithmetic only, evaluated in \<open>int\<close> after the usual promotion of the \<open>uint16_t\<close>
  operand, with division truncating towards zero, and stored back into a \<open>uint16_t\<close>.
\<close>

record config =
  NO_OF_POSITION_SAMPLES :: "32 word"
  CMD_RDX :: "8 word"
  CMD_RDY :: "8 word"
  X_TRANSLATION :: int
  Y_TRANSLATION :: int
  X_OFFSET :: int
  Y_OFFSET :: int
  X_MAGNITUDE :: int
  Y_MAGNITUDE :: int

datatype status = TOUCHPAD_DATA_OK | TOUCHPAD_DATA_NOISY

text \<open>A division whose divisor is zero has no defined result in C; the model reports which one.\<close>

datatype fault = AverageDivisionByZero | TranslationDivisionByZero

text \<open>The local variables of \<open>TP_Read_Coordinates\<close>.\<close>

record locals =
  avg_x :: "32 word"
  avg_y :: "32 word"
  rawx :: "16 word"
  rawy :: "16 word"
  calculating_x :: "32 word"
  calculating_y :: "32 word"
  samples :: "32 word"
  counted_samples :: "32 word"

text \<open>One pass through the body of the sampling loop (lines 117 to 128).\<close>

definition sampling_body :: "config \<Rightarrow> inputs \<Rightarrow> locals \<Rightarrow> gpio \<Rightarrow> locals \<times> gpio" where
  "sampling_body cfg env l s =
     (let s = TP_Write (CMD_RDY cfg) s;
          (r, s) = TP_Read env s;
          l = l\<lparr>rawy := r\<rparr>;
          l = l\<lparr>avg_y := avg_y l + ucast (rawy l)\<rparr>;
          l = l\<lparr>calculating_y := calculating_y l + ucast (rawy l)\<rparr>;
          s = TP_Write (CMD_RDX cfg) s;
          (r, s) = TP_Read env s;
          l = l\<lparr>rawx := r\<rparr>;
          l = l\<lparr>avg_x := avg_x l + ucast (rawx l)\<rparr>;
          l = l\<lparr>calculating_x := calculating_x l + ucast (rawx l)\<rparr>;
          l = l\<lparr>samples := samples l - 1\<rparr>;
          l = l\<lparr>counted_samples := counted_samples l + 1\<rparr>
      in (l, s))"

text \<open>
  The loop test is \<open>samples > 0 && ReadPin(IRQ) == 0\<close>: the press line is read only when
  the budget is not yet used up.
\<close>

function sampling_loop :: "config \<Rightarrow> inputs \<Rightarrow> locals \<Rightarrow> gpio \<Rightarrow> locals \<times> gpio" where
  "sampling_loop cfg env l s =
     (if samples l > 0 then
        (case HAL_GPIO_ReadPin env TP_IRQ s of
           (irq, s) \<Rightarrow>
             if \<not> irq then
               (case sampling_body cfg env l s of (l, s) \<Rightarrow> sampling_loop cfg env l s)
             else (l, s))
      else (l, s))"
  by pat_completeness auto
termination
  apply (relation "measure (\<lambda>(cfg, env, l, s). unat (samples l))")
  apply simp
  apply (auto simp: sampling_body_def Let_def unat_minus_one unat_gt_0 split: prod.splits)
  done

declare sampling_loop.simps [simp del]

text \<open>The 16-bit negation \<open>raw *= -1\<close>: the product is formed in \<open>int\<close> and stored back.\<close>

definition negate_raw :: "16 word \<Rightarrow> 16 word" where
  "negate_raw r = word_of_int (uint r * (- 1))"

text \<open>
  Lines 103 to 131 of \<open>TP_Read_Coordinates\<close>: the lines are put in their idle state, the
  transaction is opened, the samples are collected and the transaction is closed.
\<close>

definition sampling_phase :: "config \<Rightarrow> inputs \<Rightarrow> gpio \<Rightarrow> locals \<times> gpio" where
  "sampling_phase cfg env s =
     (let s = HAL_GPIO_WritePin TP_CLK True s;
          s = HAL_GPIO_WritePin TP_MOSI True s;
          s = HAL_GPIO_WritePin TP_CS True s;
          l = \<lparr>avg_x = 0, avg_y = 0, rawx = 0, rawy = 0,
               calculating_x = 0, calculating_y = 0,
               samples = NO_OF_POSITION_SAMPLES cfg, counted_samples = 0\<rparr>;
          s = HAL_GPIO_WritePin TP_CS False s;
          (l, s) = sampling_loop cfg env l s;
          s = HAL_GPIO_WritePin TP_CS True s
      in (l, s))"

text \<open>
  The whole of \<open>TP_Read_Coordinates\<close>. The validation test is
  \<open>counted_samples == NO_OF_POSITION_SAMPLES && ReadPin(IRQ) == 0\<close>, so the press line is
  read only when the count is complete. The coordinate array is returned as a pair.
\<close>

definition TP_Read_Coordinates ::
    "config \<Rightarrow> inputs \<Rightarrow> gpio \<Rightarrow> fault + (status \<times> (16 word \<times> 16 word) \<times> gpio)" where
  "TP_Read_Coordinates cfg env s =
     (let (l, s) = sampling_phase cfg env s;
          (ok, s) = (if counted_samples l = NO_OF_POSITION_SAMPLES cfg
                     then (case HAL_GPIO_ReadPin env TP_IRQ s of (irq, s) \<Rightarrow> (\<not> irq, s))
                     else (False, s))
      in if ok then
           if counted_samples l = 0 then Inl AverageDivisionByZero
           else
             let l = l\<lparr>calculating_x := calculating_x l div counted_samples l\<rparr>;
                 l = l\<lparr>calculating_y := calculating_y l div counted_samples l\<rparr>;
                 l = l\<lparr>rawx := ucast (calculating_x l)\<rparr>;
                 l = l\<lparr>rawy := ucast (calculating_y l)\<rparr>;
                 l = l\<lparr>rawx := negate_raw (rawx l)\<rparr>;
                 l = l\<lparr>rawy := negate_raw (rawy l)\<rparr>
             in if X_TRANSLATION cfg = 0 \<or> Y_TRANSLATION cfg = 0
                then Inl TranslationDivisionByZero
                else
                  Inr (TOUCHPAD_DATA_OK,
                       (word_of_int (((240 - (uint (rawx l) sdiv X_TRANSLATION cfg)) - X_OFFSET cfg)
                                       * X_MAGNITUDE cfg),
                        word_of_int (((uint (rawy l) sdiv Y_TRANSLATION cfg) - Y_OFFSET cfg)
                                       * Y_MAGNITUDE cfg)),
                       s)
         else Inr (TOUCHPAD_DATA_NOISY, (0, 0), s))"

section \<open>Auxiliary notions for the statements\<close>

text \<open>
  The HAL calls of \<open>n\<close> passes of the loop of \<open>TP_Write\<close> on the value \<open>v\<close>: the data-out
  line is set to bit 7, the clock is pulsed, the value is shifted.
\<close>

primrec tx_events :: "8 word \<Rightarrow> nat \<Rightarrow> event list" where
  "tx_events v 0 = []"
| "tx_events v (Suc n) =
     PinWrite TP_MOSI (bit v 7) # PinWrite TP_CLK True # PinWrite TP_CLK False
       # tx_events (push_bit 1 v) n"

text \<open>
  The HAL calls of \<open>n\<close> passes of the loop of \<open>TP_Read\<close> when the data-in line has been
  read \<open>c\<close> times before: a clock pulse, then one read of the data-in line.
\<close>

primrec rx_events :: "inputs \<Rightarrow> nat \<Rightarrow> nat \<Rightarrow> event list" where
  "rx_events env c 0 = []"
| "rx_events env c (Suc n) =
     PinWrite TP_CLK True # PinWrite TP_CLK False # PinRead TP_MISO (miso_level env c)
       # rx_events env (Suc c) n"

text \<open>
  The word made of the next \<open>n\<close> levels of the data-in line, the first one in the highest
  position; the levels are listed last-read first because \<open>horner_sum\<close> takes the least
  significant digit first.
\<close>

definition rx_bits :: "inputs \<Rightarrow> nat \<Rightarrow> nat \<Rightarrow> 16 word" where
  "rx_bits env c n = horner_sum of_bool 2 (rev (map (\<lambda>k. miso_level env (c + k)) [0..<n]))"

text \<open>
  How many checks in a row, out of at most \<open>n\<close> and starting with read number \<open>c\<close>,
  find the press line low.
\<close>

primrec press_held :: "(nat \<Rightarrow> bool) \<Rightarrow> nat \<Rightarrow> nat \<Rightarrow> nat" where
  "press_held irq c 0 = 0"
| "press_held irq c (Suc n) = (if irq c then 0 else Suc (press_held irq (Suc c) n))"

text \<open>
  The answers of pass \<open>j\<close> of the sampling loop when the data-in line has been read
  \<open>c\<close> times before the loop: each pass takes 32 bits, the Y answer first, then the X answer.
  \<open>sum_raw\<close> adds the first \<open>m\<close> answers in a \<open>uint32_t\<close>.
\<close>

definition raw_y :: "inputs \<Rightarrow> nat \<Rightarrow> nat \<Rightarrow> 16 word" where
  "raw_y env c j = rx_bits env (c + 32 * j) 16"

definition raw_x :: "inputs \<Rightarrow> nat \<Rightarrow> nat \<Rightarrow> 16 word" where
  "raw_x env c j = rx_bits env (c + 32 * j + 16) 16"

definition sum_raw :: "(nat \<Rightarrow> 16 word) \<Rightarrow> nat \<Rightarrow> 32 word" where
  "sum_raw f m = sum_list (map (\<lambda>j. ucast (f j)) [0..<m])"

text \<open>The answer of \<open>TP_Read_Coordinates\<close> without the peripheral state.\<close>

fun outcome :: "fault + (status \<times> (16 word \<times> 16 word) \<times> gpio) \<Rightarrow> fault + (status \<times> (16 word \<times> 16 word))" where
  "outcome (Inl f) = Inl f"
| "outcome (Inr (st, xy, s)) = Inr (st, xy)"

text \<open>
  The linear transform as the spec words it (section 4.2), on an integer raw value:
  \<open>x_pixel = ((screen_width - (x_raw / x_translation)) - x_offset) * x_magnitude\<close> with
  the screen width 240 and \<open>y_pixel = ((y_raw / y_translation) - y_offset) * y_magnitude\<close>,
  division truncating towards zero, the result stored in 16 bits.
\<close>

definition x_pixel :: "config \<Rightarrow> int \<Rightarrow> 16 word" where
  "x_pixel cfg x_raw = word_of_int (((240 - (x_raw sdiv X_TRANSLATION cfg)) - X_OFFSET cfg) * X_MAGNITUDE cfg)"

definition y_pixel :: "config \<Rightarrow> int \<Rightarrow> 16 word" where
  "y_pixel cfg y_raw = word_of_int (((y_raw sdiv Y_TRANSLATION cfg) - Y_OFFSET cfg) * Y_MAGNITUDE cfg)"

text \<open>The peripheral after reset, before any HAL call.\<close>

definition gpio_reset :: gpio where
  "gpio_reset = \<lparr>clk = False, mosi = False, cs = False, irq_reads = 0, miso_reads = 0, trace = []\<rparr>"

text \<open>
  A simulated controller for concrete runs: the press line is held low for ever, and the
  16-bit answers are the words of \<open>ws\<close>, most significant bit first, repeated cyclically.
\<close>

definition replay_controller :: "16 word list \<Rightarrow> inputs" where
  "replay_controller ws =
     \<lparr>irq_level = (\<lambda>k. False),
      miso_level = (\<lambda>k. bit (ws ! ((k div 16) mod length ws)) (15 - k mod 16))\<rparr>"

text \<open>
  The states at the head of the sampling loop: the state on entry, and the state after one
  more pass whenever the loop test lets the body run (budget left and press line low).
\<close>

inductive sampling_reaches :: "config \<Rightarrow> inputs \<Rightarrow> locals \<Rightarrow> gpio \<Rightarrow> locals \<Rightarrow> gpio \<Rightarrow> bool"
  for cfg env l0 s0 where
  loop_entry: "sampling_reaches cfg env l0 s0 l0 s0"
| loop_pass: "sampling_reaches cfg env l0 s0 l s \<Longrightarrow> samples l > 0 \<Longrightarrow>
     HAL_GPIO_ReadPin env TP_IRQ s = (False, s1) \<Longrightarrow>
     sampling_body cfg env l s1 = (l', s') \<Longrightarrow>
     sampling_reaches cfg env l0 s0 l' s'"

code_pred sampling_reaches .

text \<open>The local variables as line 107 to 112 initialise them, for a budget of \<open>n\<close>.\<close>

definition fresh_locals :: "32 word \<Rightarrow> locals" where
  "fresh_locals n =
     \<lparr>avg_x = 0, avg_y = 0, rawx = 0, rawy = 0, calculating_x = 0, calculating_y = 0,
      samples = n, counted_samples = 0\<rparr>"

text \<open>A configuration for concrete runs: no offsets, unit magnitudes.\<close>

definition test_config :: "32 word \<Rightarrow> int \<Rightarrow> int \<Rightarrow> config" where
  "test_config n xt yt =
     \<lparr>NO_OF_POSITION_SAMPLES = n, CMD_RDX = 0xD0, CMD_RDY = 0x90,
      X_TRANSLATION = xt, Y_TRANSLATION = yt, X_OFFSET = 0, Y_OFFSET = 0,
      X_MAGNITUDE = 1, Y_MAGNITUDE = 1\<rparr>"

section \<open>Properties of the HAL calls and of the driver functions\<close>

lemma HAL_GPIO_WritePin_fields [simp]:
  "irq_reads (HAL_GPIO_WritePin p v s) = irq_reads s"
  "miso_reads (HAL_GPIO_WritePin p v s) = miso_reads s"
  "trace (HAL_GPIO_WritePin p v s) = trace s @ [PinWrite p v]"
  by (cases p; simp)+

lemma HAL_GPIO_WritePin_outputs [simp]:
  "clk (HAL_GPIO_WritePin p v s) = (if p = TP_CLK then v else clk s)"
  "mosi (HAL_GPIO_WritePin p v s) = (if p = TP_MOSI then v else mosi s)"
  "cs (HAL_GPIO_WritePin p v s) = (if p = TP_CS then v else cs s)"
  by (cases p; simp)+

lemma HAL_GPIO_ReadPin_eq [simp]:
  "HAL_GPIO_ReadPin env TP_IRQ s =
     (irq_level env (irq_reads s),
      s\<lparr>irq_reads := irq_reads s + 1,
        trace := trace s @ [PinRead TP_IRQ (irq_level env (irq_reads s))]\<rparr>)"
  "HAL_GPIO_ReadPin env TP_MISO s =
     (miso_level env (miso_reads s),
      s\<lparr>miso_reads := miso_reads s + 1,
        trace := trace s @ [PinRead TP_MISO (miso_level env (miso_reads s))]\<rparr>)"
  by (simp_all add: Let_def)

declare HAL_GPIO_ReadPin.simps [simp del]

lemma msb_test: "(v AND 0x80 \<noteq> 0) = bit v 7" for v :: "8 word"
  using bit_iff_and_push_bit_not_eq_0 [of v 7] by simp

lemma word_countdown:
  "unat i = Suc n \<Longrightarrow> 0 < i \<and> unat (i - 1) = n" for i :: "'a::len word"
proof -
  assume a: "unat i = Suc n"
  then have "i \<noteq> 0" by auto
  then show ?thesis using a by (simp add: unat_minus_one word_greater_zero_iff)
qed

lemma TP_Write_loop_fields:
  "unat i = n \<Longrightarrow>
     irq_reads (TP_Write_loop i v s) = irq_reads s \<and>
     miso_reads (TP_Write_loop i v s) = miso_reads s \<and>
     cs (TP_Write_loop i v s) = cs s \<and>
     clk (TP_Write_loop i v s) = (if n = 0 then clk s else False) \<and>
     trace (TP_Write_loop i v s) = trace s @ tx_events v n"
proof (induction n arbitrary: i v s)
  case 0
  then have "i = 0" by (simp add: unat_eq_0)
  then show ?case by (simp add: TP_Write_loop.simps)
next
  case (Suc n)
  then have pos: "i > 0" and pred: "unat (i - 1) = n"
    using word_countdown [of i n] by simp_all
  show ?case
    using Suc.IH [OF pred] pos
    by (subst (1 2 3 4 5) TP_Write_loop.simps) (simp add: Let_def msb_test)
qed

lemma rx_bits_0 [simp]: "rx_bits env c 0 = 0"
  by (simp add: rx_bits_def)

lemma rx_bits_Suc:
  "rx_bits env c (Suc n) = push_bit n (of_bool (miso_level env c)) + rx_bits env (Suc c) n"
  by (simp add: rx_bits_def map_upt_Suc horner_sum_append push_bit_eq_mult del: upt_Suc)

lemma TP_Read_loop_spec:
  "unat i = n \<Longrightarrow>
     fst (TP_Read_loop env i v s) = push_bit n v + rx_bits env (miso_reads s) n \<and>
     irq_reads (snd (TP_Read_loop env i v s)) = irq_reads s \<and>
     miso_reads (snd (TP_Read_loop env i v s)) = miso_reads s + n \<and>
     cs (snd (TP_Read_loop env i v s)) = cs s \<and>
     mosi (snd (TP_Read_loop env i v s)) = mosi s \<and>
     clk (snd (TP_Read_loop env i v s)) = (if n = 0 then clk s else False) \<and>
     trace (snd (TP_Read_loop env i v s)) = trace s @ rx_events env (miso_reads s) n"
proof (induction n arbitrary: i v s)
  case 0
  then have "i = 0" by (simp add: unat_eq_0)
  then show ?case by (simp add: TP_Read_loop.simps)
next
  case (Suc n)
  then have pos: "i > 0" and pred: "unat (i - 1) = n"
    using word_countdown [of i n] by simp_all
  have step: "(if b then w + 1 else w) = w + of_bool b" for b and w :: "16 word"
    by simp
  show ?case
    using Suc.IH [OF pred] pos
    by (subst (1 2 3 4 5 6 7) TP_Read_loop.simps)
       (simp add: Let_def step rx_bits_Suc push_bit_add split: prod.splits)
qed

lemma length_tx_events [simp]: "length (tx_events v n) = 3 * n"
  by (induction n arbitrary: v) simp_all

lemma length_rx_events [simp]: "length (rx_events env c n) = 3 * n"
  by (induction n arbitrary: c) simp_all

lemma pulses_tx_events [simp]: "count_list (tx_events v n) (PinWrite TP_CLK True) = n"
  by (induction n arbitrary: v) simp_all

lemma pulses_rx_events [simp]: "count_list (rx_events env c n) (PinWrite TP_CLK True) = n"
  by (induction n arbitrary: c) simp_all

lemma TP_Write_fields [simp]:
  "irq_reads (TP_Write v s) = irq_reads s"
  "miso_reads (TP_Write v s) = miso_reads s"
  "cs (TP_Write v s) = cs s"
  "clk (TP_Write v s) = False"
  "trace (TP_Write v s) = trace s @ PinWrite TP_CLK False # tx_events v 8"
  using TP_Write_loop_fields [of 8 8 v "HAL_GPIO_WritePin TP_CLK False s"]
  by (simp_all add: TP_Write_def)

lemma TP_Read_fields [simp]:
  "fst (TP_Read env s) = rx_bits env (miso_reads s) 16"
  "irq_reads (snd (TP_Read env s)) = irq_reads s"
  "miso_reads (snd (TP_Read env s)) = miso_reads s + 16"
  "cs (snd (TP_Read env s)) = cs s"
  "mosi (snd (TP_Read env s)) = mosi s"
  "clk (snd (TP_Read env s)) = False"
  "trace (snd (TP_Read env s)) = trace s @ rx_events env (miso_reads s) 16"
  using TP_Read_loop_spec [of 16 16 env 0 s]
  by (simp_all add: TP_Read_def)

lemma bit_rx_bits_16:
  "bit (rx_bits env c 16) j \<longleftrightarrow> j < 16 \<and> miso_level env (c + (15 - j))"
  by (auto simp add: rx_bits_def bit_horner_sum_bit_word_iff rev_nth simp del: upt_Suc)

lemma sampling_body_locals:
  "fst (sampling_body cfg env l s) =
     l\<lparr>rawy := rx_bits env (miso_reads s) 16,
       avg_y := avg_y l + ucast (rx_bits env (miso_reads s) 16),
       calculating_y := calculating_y l + ucast (rx_bits env (miso_reads s) 16),
       rawx := rx_bits env (miso_reads s + 16) 16,
       avg_x := avg_x l + ucast (rx_bits env (miso_reads s + 16) 16),
       calculating_x := calculating_x l + ucast (rx_bits env (miso_reads s + 16) 16),
       samples := samples l - 1,
       counted_samples := counted_samples l + 1\<rparr>"
  by (simp add: sampling_body_def Let_def split_beta)

lemma sampling_body_gpio:
  "irq_reads (snd (sampling_body cfg env l s)) = irq_reads s"
  "miso_reads (snd (sampling_body cfg env l s)) = miso_reads s + 32"
  "cs (snd (sampling_body cfg env l s)) = cs s"
  "length (trace (snd (sampling_body cfg env l s))) = length (trace s) + 146"
  by (simp_all add: sampling_body_def Let_def split_beta)

lemma sum_raw_0 [simp]: "sum_raw f 0 = 0"
  by (simp add: sum_raw_def)

lemma sum_raw_Suc_shift: "sum_raw f (Suc m) = ucast (f 0) + sum_raw (\<lambda>j. f (Suc j)) m"
  by (simp add: sum_raw_def map_upt_Suc del: upt_Suc)

lemma raw_shift:
  "raw_y env c (Suc j) = raw_y env (c + 32) j"
  "raw_x env c (Suc j) = raw_x env (c + 32) j"
  by (simp_all add: raw_y_def raw_x_def add.assoc)

lemma press_held_le: "press_held irq c n \<le> n"
  by (induction n arbitrary: c) simp_all

lemma sampling_loop_spec:
  "unat (samples l) = n \<Longrightarrow> m = press_held (irq_level env) (irq_reads s) n \<Longrightarrow>
     counted_samples (fst (sampling_loop cfg env l s)) = counted_samples l + of_nat m \<and>
     samples (fst (sampling_loop cfg env l s)) = samples l - of_nat m \<and>
     calculating_x (fst (sampling_loop cfg env l s)) =
       calculating_x l + sum_raw (raw_x env (miso_reads s)) m \<and>
     calculating_y (fst (sampling_loop cfg env l s)) =
       calculating_y l + sum_raw (raw_y env (miso_reads s)) m \<and>
     irq_reads (snd (sampling_loop cfg env l s)) = irq_reads s + (if m < n then Suc m else m) \<and>
     miso_reads (snd (sampling_loop cfg env l s)) = miso_reads s + 32 * m \<and>
     cs (snd (sampling_loop cfg env l s)) = cs s \<and>
     length (trace (snd (sampling_loop cfg env l s))) =
       length (trace s) + 147 * m + (if m < n then 1 else 0)"
proof (induction n arbitrary: l s m)
  case 0
  then have "samples l = 0" by (simp add: unat_eq_0)
  then show ?case using 0 by (simp add: sampling_loop.simps)
next
  case (Suc n)
  then have pos: "samples l > 0" and pred: "unat (samples l - 1) = n"
    using word_countdown [of "samples l" n] by simp_all
  show ?case
  proof (cases "irq_level env (irq_reads s)")
    case True
    then show ?thesis
      using pos Suc.prems by (subst (1 2 3 4 5 6 7 8) sampling_loop.simps) simp
  next
    case False
    define s1 where "s1 = snd (HAL_GPIO_ReadPin env TP_IRQ s)"
    define l' where "l' = fst (sampling_body cfg env l s1)"
    define s' where "s' = snd (sampling_body cfg env l s1)"
    define m' where "m' = press_held (irq_level env) (irq_reads s') n"
    have s1: "irq_reads s1 = Suc (irq_reads s)" "miso_reads s1 = miso_reads s" "cs s1 = cs s"
      "length (trace s1) = Suc (length (trace s))"
      by (simp_all add: s1_def)
    have unfold: "sampling_loop cfg env l s = sampling_loop cfg env l' s'"
      using pos False
      by (subst sampling_loop.simps) (simp add: s1_def l'_def s'_def split_beta)
    have l': "samples l' = samples l - 1" "counted_samples l' = counted_samples l + 1"
      "calculating_x l' = calculating_x l + ucast (raw_x env (miso_reads s) 0)"
      "calculating_y l' = calculating_y l + ucast (raw_y env (miso_reads s) 0)"
      by (simp_all add: l'_def sampling_body_locals s1 raw_x_def raw_y_def)
    have s': "irq_reads s' = Suc (irq_reads s)" "miso_reads s' = miso_reads s + 32"
      "cs s' = cs s" "length (trace s') = length (trace s) + 147"
      by (simp_all add: s'_def sampling_body_gpio s1)
    have m: "m = Suc m'"
      using Suc.prems False by (simp add: m'_def s')
    have "unat (samples l') = n"
      using pred l' by simp
    from Suc.IH [OF this m'_def]
    show ?thesis
      unfolding unfold
      by (simp add: l' s' m sum_raw_Suc_shift raw_shift add.assoc)
  qed
qed

lemma of_nat_eq_word_iff:
  "m \<le> unat w \<Longrightarrow> (of_nat m = w) = (m = unat w)" for w :: "32 word"
proof -
  assume le: "m \<le> unat w"
  have "unat w < 2 ^ 32" using unsigned_less [of w] by simp
  then have "unat (of_nat m :: 32 word) = m"
    using le by (simp add: unat_of_nat)
  then show ?thesis by auto
qed

lemma sampling_phase_spec:
  fixes cfg env s
  defines "N \<equiv> unat (NO_OF_POSITION_SAMPLES cfg)"
  defines "m \<equiv> press_held (irq_level env) (irq_reads s) N"
  shows "counted_samples (fst (sampling_phase cfg env s)) = of_nat m"
    and "samples (fst (sampling_phase cfg env s)) = NO_OF_POSITION_SAMPLES cfg - of_nat m"
    and "calculating_x (fst (sampling_phase cfg env s)) = sum_raw (raw_x env (miso_reads s)) m"
    and "calculating_y (fst (sampling_phase cfg env s)) = sum_raw (raw_y env (miso_reads s)) m"
    and "irq_reads (snd (sampling_phase cfg env s)) = irq_reads s + (if m < N then Suc m else m)"
    and "miso_reads (snd (sampling_phase cfg env s)) = miso_reads s + 32 * m"
    and "cs (snd (sampling_phase cfg env s))"
    and "length (trace (snd (sampling_phase cfg env s))) =
           length (trace s) + 5 + 147 * m + (if m < N then 1 else 0)"
proof -
  define l0 where "l0 = \<lparr>avg_x = 0, avg_y = 0, rawx = 0, rawy = 0,
               calculating_x = 0, calculating_y = 0,
               samples = NO_OF_POSITION_SAMPLES cfg, counted_samples = 0\<rparr>"
  define s0 where "s0 = HAL_GPIO_WritePin TP_CS False (HAL_GPIO_WritePin TP_CS True
     (HAL_GPIO_WritePin TP_MOSI True (HAL_GPIO_WritePin TP_CLK True s)))"
  have phase: "sampling_phase cfg env s =
      (fst (sampling_loop cfg env l0 s0), HAL_GPIO_WritePin TP_CS True (snd (sampling_loop cfg env l0 s0)))"
    by (simp add: sampling_phase_def Let_def split_beta l0_def s0_def)
  have n: "unat (samples l0) = N" by (simp add: l0_def N_def)
  have m: "m = press_held (irq_level env) (irq_reads s0) N" by (simp add: m_def s0_def)
  note loop = sampling_loop_spec [OF n m, of cfg]
  show "counted_samples (fst (sampling_phase cfg env s)) = of_nat m"
    and "samples (fst (sampling_phase cfg env s)) = NO_OF_POSITION_SAMPLES cfg - of_nat m"
    and "calculating_x (fst (sampling_phase cfg env s)) = sum_raw (raw_x env (miso_reads s)) m"
    and "calculating_y (fst (sampling_phase cfg env s)) = sum_raw (raw_y env (miso_reads s)) m"
    and "irq_reads (snd (sampling_phase cfg env s)) = irq_reads s + (if m < N then Suc m else m)"
    and "miso_reads (snd (sampling_phase cfg env s)) = miso_reads s + 32 * m"
    and "cs (snd (sampling_phase cfg env s))"
    and "length (trace (snd (sampling_phase cfg env s))) =
           length (trace s) + 5 + 147 * m + (if m < N then 1 else 0)"
    using loop unfolding phase by (simp_all add: l0_def s0_def)
qed

lemma TP_Read_Coordinates_outcome:
  fixes cfg env s
  defines "N \<equiv> unat (NO_OF_POSITION_SAMPLES cfg)"
  defines "m \<equiv> press_held (irq_level env) (irq_reads s) N"
  shows "outcome (TP_Read_Coordinates cfg env s) =
     (if m = N \<and> \<not> irq_level env (irq_reads s + N) then
        if N = 0 then Inl AverageDivisionByZero
        else if X_TRANSLATION cfg = 0 \<or> Y_TRANSLATION cfg = 0 then Inl TranslationDivisionByZero
        else Inr (TOUCHPAD_DATA_OK,
          x_pixel cfg (uint (negate_raw (ucast
             (sum_raw (raw_x env (miso_reads s)) N div NO_OF_POSITION_SAMPLES cfg)))),
          y_pixel cfg (uint (negate_raw (ucast
             (sum_raw (raw_y env (miso_reads s)) N div NO_OF_POSITION_SAMPLES cfg)))))
      else Inr (TOUCHPAD_DATA_NOISY, 0, 0))"
proof -
  have le: "m \<le> unat (NO_OF_POSITION_SAMPLES cfg)"
    unfolding m_def N_def by (rule press_held_le)
  note full = of_nat_eq_word_iff [OF le]
  note phase = sampling_phase_spec [of cfg env s, folded N_def, folded m_def]
  have zero: "(NO_OF_POSITION_SAMPLES cfg = 0) = (N = 0)"
    by (simp add: N_def unat_eq_0)
  have restore: "of_nat N = NO_OF_POSITION_SAMPLES cfg"
    by (simp add: N_def)
  show ?thesis
  proof (cases "m = N")
    case True
    then show ?thesis
      using zero
      by (simp add: TP_Read_Coordinates_def Let_def split_beta phase restore x_pixel_def y_pixel_def)
  next
    case False
    then show ?thesis
      using full
      by (simp add: TP_Read_Coordinates_def Let_def split_beta phase N_def)
  qed
qed

lemma rx_events_concat:
  "rx_events env c n =
     concat (map (\<lambda>k. [PinWrite TP_CLK True, PinWrite TP_CLK False,
                         PinRead TP_MISO (miso_level env (c + k))]) [0..<n])"
  by (induction n arbitrary: c) (simp_all add: map_upt_Suc del: upt_Suc)

lemma sampling_reaches_invariant:
  assumes "sampling_reaches cfg env l0 s0 l s" and "counted_samples l0 = 0"
  shows "unat (counted_samples l) + unat (samples l) = unat (samples l0)"
  using assms
proof (induction rule: sampling_reaches.induct)
  case loop_entry
  then show ?case by simp
next
  case (loop_pass l s s1 l' s')
  have inv: "unat (counted_samples l) + unat (samples l) = unat (samples l0)"
    using loop_pass.IH loop_pass.prems by simp
  have nz: "samples l \<noteq> 0" using loop_pass.hyps(2) by simp
  then have pos: "0 < unat (samples l)" by (simp add: unat_gt_0)
  have "unat (samples l0) < 2 ^ 32" using unsigned_less [of "samples l0"] by simp
  then have room: "unat (counted_samples l) + 1 < 2 ^ 32" using inv pos by linarith
  have l': "l' = fst (sampling_body cfg env l s1)"
    using loop_pass.hyps(4) by simp
  have "unat (counted_samples l + 1) = unat (counted_samples l) + 1"
    using room by (simp add: unat_word_ariths)
  moreover have "unat (samples l - 1) = unat (samples l) - 1"
    using nz by (simp add: unat_minus_one)
  ultimately show ?case
    using inv pos by (simp add: l' sampling_body_locals)
qed

lemma sampling_loop_reached:
  "sampling_reaches cfg env l0 s0 l s \<Longrightarrow>
     \<exists>s'. sampling_reaches cfg env l0 s0 (fst (sampling_loop cfg env l s)) s'"
proof (induction cfg env l s rule: sampling_loop.induct)
  case (1 cfg env l s)
  show ?case
  proof (cases "samples l > 0 \<and> \<not> irq_level env (irq_reads s)")
    case True
    define s1 where "s1 = snd (HAL_GPIO_ReadPin env TP_IRQ s)"
    have rd: "HAL_GPIO_ReadPin env TP_IRQ s = (False, s1)"
      using True by (simp add: s1_def)
    obtain l' s' where body: "sampling_body cfg env l s1 = (l', s')"
      by (cases "sampling_body cfg env l s1")
    have "sampling_reaches cfg env l0 s0 l' s'"
      using loop_pass [OF "1.prems" _ rd body] True by simp
    then have "\<exists>s''. sampling_reaches cfg env l0 s0 (fst (sampling_loop cfg env l' s')) s''"
      using "1.IH" [OF _ rd [symmetric] _ body [symmetric]] True by simp
    moreover have "sampling_loop cfg env l s = sampling_loop cfg env l' s'"
      using True rd body by (subst sampling_loop.simps) (simp del: HAL_GPIO_ReadPin_eq)
    ultimately show ?thesis by simp
  next
    case False
    then have "fst (sampling_loop cfg env l s) = l"
      by (subst sampling_loop.simps) auto
    then show ?thesis
      using "1.prems" by auto
  qed
qed

lemma unat_of_nat_held:
  "m \<le> unat w \<Longrightarrow> unat (of_nat m :: 32 word) = m" for w :: "32 word"
proof -
  assume le: "m \<le> unat w"
  have "unat w < 2 ^ 32" using unsigned_less [of w] by simp
  then show ?thesis using le by (simp add: unat_of_nat)
qed

lemma rx_bits_replay:
  "rx_bits (replay_controller ws) (16 * q) 16 = ws ! (q mod length ws)"
proof (rule bit_eqI)
  fix n
  assume "possible_bit TYPE(16 word) n"
  then have n: "n < 16" by simp
  define r where "r = 15 - n"
  have r: "r < 16" "15 - r = n" using n by (simp_all add: r_def)
  then have "(16 * q + r) div 16 = q" "(16 * q + r) mod 16 = r"
    by simp_all
  then show "bit (rx_bits (replay_controller ws) (16 * q) 16) n = bit (ws ! (q mod length ws)) n"
    using n r by (simp add: bit_rx_bits_16 replay_controller_def flip: r_def)
qed

lemma raw_replay:
  "raw_y (replay_controller ws) 0 j = ws ! ((2 * j) mod length ws)"
  "raw_x (replay_controller ws) 0 j = ws ! ((2 * j + 1) mod length ws)"
  using rx_bits_replay [of ws "2 * j"] rx_bits_replay [of ws "2 * j + 1"]
  by (simp_all add: raw_y_def raw_x_def add.commute)

lemma press_held_low: "(\<forall>k<n. \<not> irq (c + k)) \<Longrightarrow> press_held irq c n = n"
proof (induction n arbitrary: c)
  case 0
  then show ?case by simp
next
  case (Suc n)
  have "\<not> irq c" using Suc.prems by (metis add.right_neutral zero_less_Suc)
  moreover have "\<forall>k<n. \<not> irq (Suc c + k)" using Suc.prems by (metis add_Suc_shift Suc_less_eq)
  ultimately show ?case using Suc.IH [of "Suc c"] by simp
qed

lemma press_held_replay [simp]:
  "press_held (irq_level (replay_controller ws)) c n = n"
  by (rule press_held_low) (simp add: replay_controller_def)

lemma uint_negate_raw: "uint (negate_raw a) = (2 ^ 16 - uint a) mod 2 ^ 16"
proof -
  have "(2 ^ 16 - uint a) mod 2 ^ 16 = (2 ^ 16 + (- uint a)) mod 2 ^ 16"
    by simp
  also have "\<dots> = (- uint a) mod 2 ^ 16"
    by (rule mod_add_self1)
  finally show ?thesis
    by (simp add: negate_raw_def uint_word_ariths)
qed

lemma validation_read:
  "counted_samples (fst (sampling_phase cfg env s)) = NO_OF_POSITION_SAMPLES cfg \<Longrightarrow>
     irq_reads (snd (sampling_phase cfg env s)) = irq_reads s + unat (NO_OF_POSITION_SAMPLES cfg)"
proof -
  define N where "N = unat (NO_OF_POSITION_SAMPLES cfg)"
  define m where "m = press_held (irq_level env) (irq_reads s) N"
  have le: "m \<le> unat (NO_OF_POSITION_SAMPLES cfg)"
    unfolding m_def N_def by (rule press_held_le)
  note full = of_nat_eq_word_iff [OF le]
  note phase = sampling_phase_spec [of cfg env s, folded N_def, folded m_def]
  assume "counted_samples (fst (sampling_phase cfg env s)) = NO_OF_POSITION_SAMPLES cfg"
  then have "m = N" using full by (simp add: phase N_def)
  then show ?thesis by (simp add: phase N_def)
qed

lemma success_branch:
  fixes cfg env s
  defines "l \<equiv> fst (sampling_phase cfg env s)"
  defines "g \<equiv> snd (sampling_phase cfg env s)"
  shows "outcome (TP_Read_Coordinates cfg env s) =
     (if counted_samples l = NO_OF_POSITION_SAMPLES cfg \<and> \<not> irq_level env (irq_reads g) then
        if NO_OF_POSITION_SAMPLES cfg = 0 then Inl AverageDivisionByZero
        else if X_TRANSLATION cfg = 0 \<or> Y_TRANSLATION cfg = 0 then Inl TranslationDivisionByZero
        else Inr (TOUCHPAD_DATA_OK,
          x_pixel cfg (uint (negate_raw (ucast (calculating_x l div counted_samples l)))),
          y_pixel cfg (uint (negate_raw (ucast (calculating_y l div counted_samples l)))))
      else Inr (TOUCHPAD_DATA_NOISY, 0, 0))"
proof -
  define N where "N = unat (NO_OF_POSITION_SAMPLES cfg)"
  define m where "m = press_held (irq_level env) (irq_reads s) N"
  have le: "m \<le> unat (NO_OF_POSITION_SAMPLES cfg)"
    unfolding m_def N_def by (rule press_held_le)
  note full = of_nat_eq_word_iff [OF le]
  note phase = sampling_phase_spec [of cfg env s, folded N_def, folded m_def]
  note out = TP_Read_Coordinates_outcome [of cfg env s, folded N_def, folded m_def]
  have zero: "(NO_OF_POSITION_SAMPLES cfg = 0) = (N = 0)"
    by (simp add: N_def unat_eq_0)
  have restore: "of_nat N = NO_OF_POSITION_SAMPLES cfg"
    by (simp add: N_def)
  show ?thesis
  proof (cases "m = N")
    case True
    then show ?thesis
      by (simp add: out l_def g_def phase restore zero)
  next
    case False
    then show ?thesis
      using full by (simp add: out l_def g_def phase N_def)
  qed
qed

lemma ucast_word_div:
  "(ucast (a div b) :: 16 word) = of_nat (unat a div unat b)" for a b :: "32 word"
proof -
  have "(ucast (a div b) :: 16 word) = of_nat (unat (a div b))"
    by (rule of_nat_unat [symmetric])
  then show ?thesis
    by (simp only: unat_div)
qed

lemma sum_raw_Suc: "sum_raw f (Suc m) = sum_raw f m + ucast (f m)"
  by (simp add: sum_raw_def)

lemma sum_raw_const: "(\<forall>j<m. f j = R) \<Longrightarrow> sum_raw f m = of_nat m * ucast R"
  by (induction m) (simp_all add: sum_raw_Suc algebra_simps)

lemma sum_raw_same: "sum_raw (\<lambda>j. R) m = of_nat m * ucast R"
  by (rule sum_raw_const) simp

lemma unat_ucast_16_32: "unat (ucast R :: 32 word) = unat R" for R :: "16 word"
proof -
  have "unat R < 2 ^ 16" using unsigned_less [of R] by simp
  then have "unat R < 2 ^ 32" by simp
  then show ?thesis
    by (simp add: unsigned_ucast_eq take_bit_nat_eq_self)
qed

lemma average_of_constant:
  fixes n :: "32 word" and R :: "16 word"
  assumes "n \<noteq> 0" and "unat n * unat R < 2 ^ 32"
  shows "(ucast ((of_nat (unat n) * ucast R) div n :: 32 word) :: 16 word) = R"
proof -
  have "unat n * unat (ucast R :: 32 word) < 2 ^ LENGTH(32)"
    using assms(2) by (simp add: unat_ucast_16_32)
  then have "unat (n * ucast R) = unat n * unat R"
    by (simp add: unat_mult_lem [THEN iffD1] unat_ucast_16_32)
  moreover have "0 < unat n" using assms(1) by (simp add: unat_gt_0)
  ultimately have "unat (n * ucast R) div unat n = unat R"
    by simp
  then show ?thesis
    by (simp add: ucast_word_div)
qed

lemma raw_replay_pair:
  "raw_y (replay_controller [a, b]) 0 = (\<lambda>j. a)"
  "raw_x (replay_controller [a, b]) 0 = (\<lambda>j. b)"
proof -
  have len: "length [a, b] = 2" by simp
  have even: "(2 * j) mod 2 = 0" and odd: "(2 * j + 1) mod 2 = 1" for j :: nat
    by simp_all
  show "raw_y (replay_controller [a, b]) 0 = (\<lambda>j. a)"
    by (rule ext) (simp only: raw_replay len even nth_Cons_0)
  show "raw_x (replay_controller [a, b]) 0 = (\<lambda>j. b)"
    by (rule ext) (simp only: raw_replay len odd, simp)
qed

lemma TP_Read_Coordinates_replay:
  "outcome (TP_Read_Coordinates cfg (replay_controller ws) gpio_reset) =
     (if NO_OF_POSITION_SAMPLES cfg = 0 then Inl AverageDivisionByZero
      else if X_TRANSLATION cfg = 0 \<or> Y_TRANSLATION cfg = 0 then Inl TranslationDivisionByZero
      else Inr (TOUCHPAD_DATA_OK,
        x_pixel cfg (uint (negate_raw (ucast
           (sum_raw (raw_x (replay_controller ws) 0) (unat (NO_OF_POSITION_SAMPLES cfg))
              div NO_OF_POSITION_SAMPLES cfg)))),
        y_pixel cfg (uint (negate_raw (ucast
           (sum_raw (raw_y (replay_controller ws) 0) (unat (NO_OF_POSITION_SAMPLES cfg))
              div NO_OF_POSITION_SAMPLES cfg))))))"
proof -
  have low: "\<not> irq_level (replay_controller ws) k" for k
    by (simp add: replay_controller_def)
  have start: "miso_reads gpio_reset = 0"
    by (simp add: gpio_reset_def)
  show ?thesis
    unfolding TP_Read_Coordinates_outcome press_held_replay start
    using low by (simp add: unat_eq_0)
qed

lemma steady_outcome:
  assumes "NO_OF_POSITION_SAMPLES cfg \<noteq> 0"
    and "unat (NO_OF_POSITION_SAMPLES cfg) * unat R_x < 2 ^ 32"
    and "unat (NO_OF_POSITION_SAMPLES cfg) * unat R_y < 2 ^ 32"
    and "X_TRANSLATION cfg \<noteq> 0" and "Y_TRANSLATION cfg \<noteq> 0"
    and "\<forall>k\<le>unat (NO_OF_POSITION_SAMPLES cfg). \<not> irq_level env (irq_reads s + k)"
    and "\<forall>j<unat (NO_OF_POSITION_SAMPLES cfg).
           raw_x env (miso_reads s) j = R_x \<and> raw_y env (miso_reads s) j = R_y"
  shows "outcome (TP_Read_Coordinates cfg env s) =
     Inr (TOUCHPAD_DATA_OK,
          x_pixel cfg ((2 ^ 16 - uint R_x) mod 2 ^ 16),
          y_pixel cfg ((2 ^ 16 - uint R_y) mod 2 ^ 16))"
proof -
  define N where "N = unat (NO_OF_POSITION_SAMPLES cfg)"
  have held: "press_held (irq_level env) (irq_reads s) N = N"
    using assms(6) by (intro press_held_low) (simp add: N_def)
  have valid: "\<not> irq_level env (irq_reads s + N)"
    using assms(6) by (simp add: N_def)
  have pos: "N \<noteq> 0"
    using assms(1) by (simp add: N_def unat_eq_0)
  have sx: "sum_raw (raw_x env (miso_reads s)) N = of_nat N * ucast R_x"
    using assms(7) by (intro sum_raw_const) (simp add: N_def)
  have sy: "sum_raw (raw_y env (miso_reads s)) N = of_nat N * ucast R_y"
    using assms(7) by (intro sum_raw_const) (simp add: N_def)
  have ax: "(ucast ((of_nat N * ucast R_x) div NO_OF_POSITION_SAMPLES cfg :: 32 word) :: 16 word) = R_x"
    unfolding N_def by (rule average_of_constant [OF assms(1) assms(2)])
  have ay: "(ucast ((of_nat N * ucast R_y) div NO_OF_POSITION_SAMPLES cfg :: 32 word) :: 16 word) = R_y"
    unfolding N_def by (rule average_of_constant [OF assms(1) assms(3)])
  show ?thesis
    unfolding TP_Read_Coordinates_outcome N_def [symmetric] held sx sy ax ay uint_negate_raw
    using valid pos assms(4,5) by simp
qed

lemma replay_pair_outcome:
  "outcome (TP_Read_Coordinates (test_config 1 273 204) (replay_controller [204, 273]) gpio_reset)
     = Inr (TOUCHPAD_DATA_OK, 1, 320)"
  by (simp add: TP_Read_Coordinates_replay raw_replay_pair sum_raw_same test_config_def
      x_pixel_def y_pixel_def negate_raw_def signed_divide_int_def)

lemma outcome_Inr:
  "outcome r = Inr (st, xy) \<Longrightarrow> r = Inr (st, xy, snd (snd (projr r)))"
  by (cases r) auto

lemma final_miso_reads:
  "TP_Read_Coordinates cfg env s = Inr (st, xy, s') \<Longrightarrow>
     miso_reads s' = miso_reads (snd (sampling_phase cfg env s))"
  by (auto simp: TP_Read_Coordinates_def Let_def split_beta split: if_splits)

lemma rx_bits_cong:
  "(\<forall>k. miso_level env (c' + k) = miso_level env (c + k)) \<Longrightarrow> rx_bits env c' n = rx_bits env c n"
  by (simp add: rx_bits_def)

lemma raw_cong:
  assumes "\<forall>k. miso_level env (c' + k) = miso_level env (c + k)"
  shows "raw_x env c' = raw_x env c" and "raw_y env c' = raw_y env c"
proof -
  have "rx_bits env (c' + d) 16 = rx_bits env (c + d) 16" for d
    by (rule rx_bits_cong) (simp add: assms add.assoc)
  then show "raw_x env c' = raw_x env c" and "raw_y env c' = raw_y env c"
    by (auto simp: raw_x_def raw_y_def add.assoc)
qed

section \<open>The claims\<close>

text \<open>
  Claim C8. \<open>TP_Touchpad_Pressed\<close> answers \<open>TOUCHPAD_PRESSED\<close> exactly when the press line
  reads low (and \<open>TOUCHPAD_NOT_PRESSED\<close> exactly when it reads high). The three output
  lines keep their levels, and the only HAL call it makes is the one read of the press line.
\<close>

theorem TP_Touchpad_Pressed_reads_only:
  "(fst (TP_Touchpad_Pressed env s) = TOUCHPAD_PRESSED) = (\<not> irq_level env (irq_reads s)) \<and>
   (fst (TP_Touchpad_Pressed env s) = TOUCHPAD_NOT_PRESSED) = irq_level env (irq_reads s) \<and>
   clk (snd (TP_Touchpad_Pressed env s)) = clk s \<and>
   mosi (snd (TP_Touchpad_Pressed env s)) = mosi s \<and>
   cs (snd (TP_Touchpad_Pressed env s)) = cs s \<and>
   trace (snd (TP_Touchpad_Pressed env s)) = trace s @ [PinRead TP_IRQ (irq_level env (irq_reads s))]"
  by (simp add: TP_Touchpad_Pressed_def TOUCHPAD_PRESSED_def TOUCHPAD_NOT_PRESSED_def)

text \<open>
  Claim C5. \<open>TP_Read\<close> makes exactly sixteen passes, each one a clock pulse (high, then low)
  followed by one read of the data-in line, and the bit read in pass \<open>k\<close> (counted from 0)
  is bit \<open>15 - k\<close> of the result: the first bit read is the most significant one.
\<close>

theorem TP_Read_msb_first:
  "trace (snd (TP_Read env s)) =
     trace s @ concat (map (\<lambda>k. [PinWrite TP_CLK True, PinWrite TP_CLK False,
                                   PinRead TP_MISO (miso_level env (miso_reads s + k))]) [0..<16]) \<and>
   miso_reads (snd (TP_Read env s)) = miso_reads s + 16 \<and>
   (\<forall>k<16. bit (fst (TP_Read env s)) (15 - k) = miso_level env (miso_reads s + k))"
  by (auto simp add: rx_events_concat bit_rx_bits_16 simp del: upt_Suc)

theorem TP_Read_msb_first_witness:
  "(0::nat) < 16 \<and> (15::nat) < 16 \<and>
   bit (fst (TP_Read (replay_controller [0x8000]) gpio_reset)) 15 \<and>
   \<not> bit (fst (TP_Read (replay_controller [0x8000]) gpio_reset)) 0"
proof -
  have bits: "\<forall>k<16. bit (fst (TP_Read (replay_controller [0x8000]) gpio_reset)) (15 - k)
      = miso_level (replay_controller [0x8000]) (miso_reads gpio_reset + k)"
    using TP_Read_msb_first [of "replay_controller [0x8000]" gpio_reset] by blast
  from bits [rule_format, of 0] bits [rule_format, of 15]
  show ?thesis
    by (simp add: replay_controller_def gpio_reset_def)
qed

text \<open>
  Claim C9. Every loop is bounded, whatever the input lines show. \<open>TP_Write\<close> makes 25 HAL
  calls, 8 of them rising clock edges (one per pass of its loop); \<open>TP_Read\<close> makes 48, with
  16 rising clock edges (one per pass). The sampling loop counts its passes in
  \<open>counted_samples\<close>, which ends at most at \<open>NO_OF_POSITION_SAMPLES\<close>; each pass reads the
  data-in line twice sixteen times, and the whole sampling phase makes at most
  \<open>6 + 147 * NO_OF_POSITION_SAMPLES\<close> HAL calls.
\<close>

theorem loop_passes_bounded:
  "(\<exists>new. trace (TP_Write v s) = trace s @ new \<and> length new = 1 + 3 * 8 \<and>
          count_list new (PinWrite TP_CLK True) = 8) \<and>
   (\<exists>new. trace (snd (TP_Read env s)) = trace s @ new \<and> length new = 3 * 16 \<and>
          count_list new (PinWrite TP_CLK True) = 16) \<and>
   counted_samples (fst (sampling_phase cfg env s)) \<le> NO_OF_POSITION_SAMPLES cfg \<and>
   miso_reads (snd (sampling_phase cfg env s)) =
     miso_reads s + 2 * 16 * unat (counted_samples (fst (sampling_phase cfg env s))) \<and>
   length (trace (snd (sampling_phase cfg env s))) \<le>
     length (trace s) + 6 + 147 * unat (NO_OF_POSITION_SAMPLES cfg)"
proof -
  define N where "N = unat (NO_OF_POSITION_SAMPLES cfg)"
  define m where "m = press_held (irq_level env) (irq_reads s) N"
  have le: "m \<le> N" unfolding m_def by (rule press_held_le)
  have "N < 2 ^ 32" unfolding N_def using unsigned_less [of "NO_OF_POSITION_SAMPLES cfg"] by simp
  then have um: "unat (of_nat m :: 32 word) = m"
    using le by (simp add: unat_of_nat)
  note phase = sampling_phase_spec [of cfg env s, folded N_def, folded m_def]
  have "counted_samples (fst (sampling_phase cfg env s)) \<le> NO_OF_POSITION_SAMPLES cfg"
    using le um by (simp add: phase word_le_nat_alt N_def)
  moreover have "miso_reads (snd (sampling_phase cfg env s)) =
     miso_reads s + 2 * 16 * unat (counted_samples (fst (sampling_phase cfg env s)))"
    by (simp add: phase um)
  moreover have "length (trace (snd (sampling_phase cfg env s))) \<le>
     length (trace s) + 6 + 147 * unat (NO_OF_POSITION_SAMPLES cfg)"
    using le by (simp add: phase flip: N_def)
  ultimately show ?thesis by simp
qed

text \<open>
  Claim C7. At every head of the sampling loop that an execution starting with
  \<open>counted_samples = 0\<close> reaches, \<open>counted_samples\<close> plus the remaining \<open>samples\<close> is
  the budget the loop started with, so \<open>counted_samples\<close> is at most the budget. The
  state in which the loop exits is such a state, and after the sampling phase of
  \<open>TP_Read_Coordinates\<close>, that is at validation, the count is at most
  \<open>NO_OF_POSITION_SAMPLES\<close>.
\<close>

theorem counted_samples_invariant:
  "(sampling_reaches cfg env l0 s0 l s \<and> counted_samples l0 = 0 \<longrightarrow>
      unat (counted_samples l) + unat (samples l) = unat (samples l0) \<and>
      counted_samples l \<le> samples l0) \<and>
   (\<exists>s'. sampling_reaches cfg env l0 s0 (fst (sampling_loop cfg env l0 s0)) s') \<and>
   unat (counted_samples (fst (sampling_phase cfg env g))) +
     unat (samples (fst (sampling_phase cfg env g))) = unat (NO_OF_POSITION_SAMPLES cfg) \<and>
   counted_samples (fst (sampling_phase cfg env g)) \<le> NO_OF_POSITION_SAMPLES cfg"
proof -
  have reach: "unat (counted_samples l) + unat (samples l) = unat (samples l0) \<and>
      counted_samples l \<le> samples l0"
    if "sampling_reaches cfg env l0 s0 l s" "counted_samples l0 = 0"
    using sampling_reaches_invariant [OF that] by (simp add: word_le_nat_alt)
  have exit: "\<exists>s'. sampling_reaches cfg env l0 s0 (fst (sampling_loop cfg env l0 s0)) s'"
    by (rule sampling_loop_reached) (rule loop_entry)
  define N where "N = unat (NO_OF_POSITION_SAMPLES cfg)"
  define m where "m = press_held (irq_level env) (irq_reads g) N"
  have le: "m \<le> unat (NO_OF_POSITION_SAMPLES cfg)"
    unfolding m_def N_def by (rule press_held_le)
  note um = unat_of_nat_held [OF le]
  note phase = sampling_phase_spec [of cfg env g, folded N_def, folded m_def]
  have le_word: "of_nat m \<le> NO_OF_POSITION_SAMPLES cfg"
    using le um by (simp add: word_le_nat_alt)
  have "unat (NO_OF_POSITION_SAMPLES cfg - of_nat m) = unat (NO_OF_POSITION_SAMPLES cfg) - m"
    using le_word um by (simp add: unat_sub)
  then have "unat (counted_samples (fst (sampling_phase cfg env g))) +
     unat (samples (fst (sampling_phase cfg env g))) = unat (NO_OF_POSITION_SAMPLES cfg)"
    using le um by (simp add: phase)
  moreover have "counted_samples (fst (sampling_phase cfg env g)) \<le> NO_OF_POSITION_SAMPLES cfg"
    using le_word by (simp add: phase)
  ultimately show ?thesis
    using reach exit by blast
qed

theorem counted_samples_invariant_witness:
  "sampling_reaches (test_config 2 1 1) (replay_controller [100, 7]) (fresh_locals 2) gpio_reset
     (fst (sampling_body (test_config 2 1 1) (replay_controller [100, 7]) (fresh_locals 2)
        (snd (HAL_GPIO_ReadPin (replay_controller [100, 7]) TP_IRQ gpio_reset))))
     (snd (sampling_body (test_config 2 1 1) (replay_controller [100, 7]) (fresh_locals 2)
        (snd (HAL_GPIO_ReadPin (replay_controller [100, 7]) TP_IRQ gpio_reset)))) \<and>
   counted_samples (fresh_locals 2) = 0 \<and>
   counted_samples (fst (sampling_body (test_config 2 1 1) (replay_controller [100, 7])
     (fresh_locals 2) (snd (HAL_GPIO_ReadPin (replay_controller [100, 7]) TP_IRQ gpio_reset)))) = 1 \<and>
   samples (fst (sampling_body (test_config 2 1 1) (replay_controller [100, 7])
     (fresh_locals 2) (snd (HAL_GPIO_ReadPin (replay_controller [100, 7]) TP_IRQ gpio_reset)))) = 1 \<and>
   unat (1 :: 32 word) + unat (1 :: 32 word) = unat (samples (fresh_locals 2))"
proof -
  define cfg where "cfg = test_config 2 1 1"
  define env where "env = replay_controller [100, 7]"
  define s1 where "s1 = snd (HAL_GPIO_ReadPin env TP_IRQ gpio_reset)"
  define l1 where "l1 = fst (sampling_body cfg env (fresh_locals 2) s1)"
  define g1 where "g1 = snd (sampling_body cfg env (fresh_locals 2) s1)"
  have rd: "HAL_GPIO_ReadPin env TP_IRQ gpio_reset = (False, s1)"
    by (simp add: s1_def env_def replay_controller_def)
  have reach: "sampling_reaches cfg env (fresh_locals 2) gpio_reset l1 g1"
    by (rule loop_pass [OF loop_entry _ rd]) (simp_all add: fresh_locals_def l1_def g1_def)
  have zero: "counted_samples (fresh_locals 2) = 0"
    by (simp add: fresh_locals_def)
  have l1: "counted_samples l1 = 1" "samples l1 = 1"
    by (simp_all add: l1_def sampling_body_locals fresh_locals_def)
  from counted_samples_invariant [of cfg env "fresh_locals 2" gpio_reset l1 g1 gpio_reset]
    reach zero
  have "unat (counted_samples l1) + unat (samples l1) = unat (samples (fresh_locals 2))"
    by blast
  then show ?thesis
    using reach zero l1 unfolding l1_def g1_def s1_def cfg_def env_def by simp
qed

text \<open>
  Claim C4. With a budget of at least one sample the averaging never divides by zero:
  whenever \<open>TP_Read_Coordinates\<close> takes the success branch (the only way not to answer
  NOISY with zeroed coordinates), \<open>counted_samples\<close> equals the budget and is not zero.
  The bound on the budget is needed: with a budget of zero and the press line low at the
  validation read, the count is zero and the averaging divides by zero.
\<close>

theorem averaging_divisor_nonzero:
  "(NO_OF_POSITION_SAMPLES cfg \<noteq> 0 \<longrightarrow>
      TP_Read_Coordinates cfg env s \<noteq> Inl AverageDivisionByZero \<and>
      (outcome (TP_Read_Coordinates cfg env s) \<noteq> Inr (TOUCHPAD_DATA_NOISY, 0, 0) \<longrightarrow>
         counted_samples (fst (sampling_phase cfg env s)) = NO_OF_POSITION_SAMPLES cfg \<and>
         counted_samples (fst (sampling_phase cfg env s)) \<noteq> 0)) \<and>
   (NO_OF_POSITION_SAMPLES cfg = 0 \<and> \<not> irq_level env (irq_reads s) \<longrightarrow>
      counted_samples (fst (sampling_phase cfg env s)) = 0 \<and>
      TP_Read_Coordinates cfg env s = Inl AverageDivisionByZero)"
proof -
  define N where "N = unat (NO_OF_POSITION_SAMPLES cfg)"
  define m where "m = press_held (irq_level env) (irq_reads s) N"
  have le: "m \<le> unat (NO_OF_POSITION_SAMPLES cfg)"
    unfolding m_def N_def by (rule press_held_le)
  note full = of_nat_eq_word_iff [OF le]
  note phase = sampling_phase_spec [of cfg env s, folded N_def, folded m_def]
  note out = TP_Read_Coordinates_outcome [of cfg env s, folded N_def, folded m_def]
  have zero: "(NO_OF_POSITION_SAMPLES cfg = 0) = (N = 0)"
    by (simp add: N_def unat_eq_0)
  have fault: "(r = Inl f) = (outcome r = Inl f)" for r f
    by (cases r) auto
  have a: "TP_Read_Coordinates cfg env s \<noteq> Inl AverageDivisionByZero"
    if "NO_OF_POSITION_SAMPLES cfg \<noteq> 0"
    using that zero by (simp add: fault out)
  have b: "counted_samples (fst (sampling_phase cfg env s)) = NO_OF_POSITION_SAMPLES cfg"
    if "outcome (TP_Read_Coordinates cfg env s) \<noteq> Inr (TOUCHPAD_DATA_NOISY, 0, 0)"
    using that full by (simp add: out phase N_def split: if_splits)
  have c: "counted_samples (fst (sampling_phase cfg env s)) = 0 \<and>
      TP_Read_Coordinates cfg env s = Inl AverageDivisionByZero"
    if "NO_OF_POSITION_SAMPLES cfg = 0" "\<not> irq_level env (irq_reads s)"
  proof -
    have "N = 0" using that zero by simp
    then have "m = 0" by (simp add: m_def)
    then show ?thesis
      using \<open>N = 0\<close> that by (simp add: fault out phase)
  qed
  show ?thesis
    using a b c by metis
qed

theorem averaging_divisor_nonzero_witness:
  "NO_OF_POSITION_SAMPLES (test_config 1 1 1) \<noteq> 0 \<and>
   TP_Read_Coordinates (test_config 1 1 1) (replay_controller [100, 7]) gpio_reset
     \<noteq> Inl AverageDivisionByZero \<and>
   NO_OF_POSITION_SAMPLES (test_config 0 1 1) = 0 \<and>
   \<not> irq_level (replay_controller [100, 7]) (irq_reads gpio_reset) \<and>
   TP_Read_Coordinates (test_config 0 1 1) (replay_controller [100, 7]) gpio_reset
     = Inl AverageDivisionByZero"
  using averaging_divisor_nonzero [of "test_config 1 1 1" "replay_controller [100, 7]" gpio_reset]
    averaging_divisor_nonzero [of "test_config 0 1 1" "replay_controller [100, 7]" gpio_reset]
  by (simp add: test_config_def replay_controller_def gpio_reset_def)

text \<open>
  Claim C2, amended. The answer is NOISY with coordinates \<open>(0, 0)\<close> exactly when the
  validation fails, that is unless both the count of completed samples equals the budget and
  the press line reads low at the validation read. When the budget is at least one and both
  translation divisors are non-zero, the answer is OK exactly when both conditions hold.
  (Without these bounds the success branch divides by zero, see the counterexample.)
\<close>

theorem status_decided_by_validation:
  "(outcome (TP_Read_Coordinates cfg env s) = Inr (TOUCHPAD_DATA_NOISY, 0, 0)) =
     (\<not> (counted_samples (fst (sampling_phase cfg env s)) = NO_OF_POSITION_SAMPLES cfg \<and>
         \<not> irq_level env (irq_reads (snd (sampling_phase cfg env s))))) \<and>
   (NO_OF_POSITION_SAMPLES cfg \<noteq> 0 \<and> X_TRANSLATION cfg \<noteq> 0 \<and> Y_TRANSLATION cfg \<noteq> 0 \<longrightarrow>
      (\<exists>xy. outcome (TP_Read_Coordinates cfg env s) = Inr (TOUCHPAD_DATA_OK, xy)) =
        (counted_samples (fst (sampling_phase cfg env s)) = NO_OF_POSITION_SAMPLES cfg \<and>
         \<not> irq_level env (irq_reads (snd (sampling_phase cfg env s)))))"
  by (simp add: success_branch)

theorem status_decided_by_validation_witness:
  "NO_OF_POSITION_SAMPLES (test_config 1 273 204) \<noteq> 0 \<and>
   X_TRANSLATION (test_config 1 273 204) \<noteq> 0 \<and> Y_TRANSLATION (test_config 1 273 204) \<noteq> 0 \<and>
   (\<exists>xy. outcome (TP_Read_Coordinates (test_config 1 273 204) (replay_controller [204, 273])
      gpio_reset) = Inr (TOUCHPAD_DATA_OK, xy))"
proof -
  define cfg where "cfg = test_config 1 273 204"
  define env where "env = replay_controller [204, 273]"
  have cfg: "NO_OF_POSITION_SAMPLES cfg \<noteq> 0 \<and> X_TRANSLATION cfg \<noteq> 0 \<and> Y_TRANSLATION cfg \<noteq> 0"
    by (simp add: cfg_def test_config_def)
  have count: "counted_samples (fst (sampling_phase cfg env gpio_reset)) = NO_OF_POSITION_SAMPLES cfg"
    by (simp add: sampling_phase_spec env_def cfg_def test_config_def replay_controller_def)
  have "\<not> irq_level env (irq_reads (snd (sampling_phase cfg env gpio_reset)))"
    by (simp add: env_def replay_controller_def)
  with count cfg status_decided_by_validation [of cfg env gpio_reset]
  have "\<exists>xy. outcome (TP_Read_Coordinates cfg env gpio_reset) = Inr (TOUCHPAD_DATA_OK, xy)"
    by blast
  with cfg show ?thesis unfolding cfg_def env_def by simp
qed

text \<open>
  With a budget of zero and the press line low, both conditions of claim C2 hold (the count
  of completed samples, zero, equals the budget, and the validation read is low), but the call
  does not answer OK: the averaging divides by zero. With a budget of one and an X translation
  of zero both conditions hold again, and the transform divides by zero.
\<close>

theorem zero_budget_counterexample:
  "counted_samples (fst (sampling_phase (test_config 0 273 204) (replay_controller [204, 273])
      gpio_reset)) = NO_OF_POSITION_SAMPLES (test_config 0 273 204) \<and>
   \<not> irq_level (replay_controller [204, 273])
      (irq_reads (snd (sampling_phase (test_config 0 273 204) (replay_controller [204, 273])
         gpio_reset))) \<and>
   outcome (TP_Read_Coordinates (test_config 0 273 204) (replay_controller [204, 273]) gpio_reset)
     = Inl AverageDivisionByZero \<and>
   counted_samples (fst (sampling_phase (test_config 1 0 204) (replay_controller [204, 273])
      gpio_reset)) = NO_OF_POSITION_SAMPLES (test_config 1 0 204) \<and>
   \<not> irq_level (replay_controller [204, 273])
      (irq_reads (snd (sampling_phase (test_config 1 0 204) (replay_controller [204, 273])
         gpio_reset))) \<and>
   outcome (TP_Read_Coordinates (test_config 1 0 204) (replay_controller [204, 273]) gpio_reset)
     = Inl TranslationDivisionByZero"
proof -
  have n: "NO_OF_POSITION_SAMPLES (test_config 0 273 204) = 0"
    by (simp add: test_config_def)
  have count: "counted_samples (fst (sampling_phase (test_config 0 273 204)
      (replay_controller [204, 273]) gpio_reset)) = 0"
    by (simp add: sampling_phase_spec n)
  have low: "\<not> irq_level (replay_controller [204, 273]) k" for k
    by (simp add: replay_controller_def)
  have "outcome (TP_Read_Coordinates (test_config 0 273 204) (replay_controller [204, 273])
      gpio_reset) = Inl AverageDivisionByZero"
    unfolding success_branch count n using low by simp
  moreover have "counted_samples (fst (sampling_phase (test_config 1 0 204)
      (replay_controller [204, 273]) gpio_reset)) = NO_OF_POSITION_SAMPLES (test_config 1 0 204)"
    unfolding sampling_phase_spec press_held_replay by (simp add: test_config_def)
  moreover have "outcome (TP_Read_Coordinates (test_config 1 0 204) (replay_controller [204, 273])
      gpio_reset) = Inl TranslationDivisionByZero"
    unfolding TP_Read_Coordinates_replay by (simp add: test_config_def)
  ultimately show ?thesis
    using count n low by simp
qed

text \<open>
  Claim C3. The 16-bit negation is the wrap-around one: \<open>negate_raw a\<close> read as an unsigned
  number is \<open>(2^16 - a) mod 2^16\<close>. On the success path the value that enters the division
  and the linear transform is this negation of the averaged raw value, the accumulated sum
  divided by the count of completed samples and stored in 16 bits.
\<close>

theorem raw_negation_wraps:
  "uint (negate_raw a) = (2 ^ 16 - uint a) mod 2 ^ 16 \<and>
   (outcome (TP_Read_Coordinates cfg env s) = Inr (TOUCHPAD_DATA_OK, x, y) \<longrightarrow>
      x = x_pixel cfg ((2 ^ 16 - uint (ucast (calculating_x (fst (sampling_phase cfg env s))
              div counted_samples (fst (sampling_phase cfg env s))) :: 16 word)) mod 2 ^ 16) \<and>
      y = y_pixel cfg ((2 ^ 16 - uint (ucast (calculating_y (fst (sampling_phase cfg env s))
              div counted_samples (fst (sampling_phase cfg env s))) :: 16 word)) mod 2 ^ 16))"
  by (simp add: success_branch uint_negate_raw split: if_splits)

theorem raw_negation_wraps_witness:
  "outcome (TP_Read_Coordinates (test_config 1 273 204) (replay_controller [204, 273]) gpio_reset)
     = Inr (TOUCHPAD_DATA_OK, 1, 320) \<and>
   uint (negate_raw 273) = 65263 \<and>
   (1 :: 16 word) = x_pixel (test_config 1 273 204)
      ((2 ^ 16 - uint (ucast (calculating_x (fst (sampling_phase (test_config 1 273 204)
                (replay_controller [204, 273]) gpio_reset))
           div counted_samples (fst (sampling_phase (test_config 1 273 204)
                (replay_controller [204, 273]) gpio_reset))) :: 16 word)) mod 2 ^ 16)"
  using raw_negation_wraps [of 273 "test_config 1 273 204" "replay_controller [204, 273]"
      gpio_reset 1 320] replay_pair_outcome
  by simp

text \<open>
  Claim C6. On the success path each average is the accumulated sum divided by the number of
  samples with the quotient cut off (the division of natural numbers), and the accumulated
  sums are the sums of the raw answers. The witness is the run of the claim: the Y answers
  100 and 101 with a budget of two accumulate to 201 and average to 100, not 101.
\<close>

theorem averaging_truncates:
  "outcome (TP_Read_Coordinates cfg env s) = Inr (TOUCHPAD_DATA_OK, x, y) \<Longrightarrow>
     x = x_pixel cfg (uint (negate_raw (of_nat
           (unat (calculating_x (fst (sampling_phase cfg env s)))
              div unat (NO_OF_POSITION_SAMPLES cfg))))) \<and>
     y = y_pixel cfg (uint (negate_raw (of_nat
           (unat (calculating_y (fst (sampling_phase cfg env s)))
              div unat (NO_OF_POSITION_SAMPLES cfg))))) \<and>
     calculating_x (fst (sampling_phase cfg env s)) =
       sum_raw (raw_x env (miso_reads s)) (unat (NO_OF_POSITION_SAMPLES cfg)) \<and>
     calculating_y (fst (sampling_phase cfg env s)) =
       sum_raw (raw_y env (miso_reads s)) (unat (NO_OF_POSITION_SAMPLES cfg))"
proof -
  assume ok: "outcome (TP_Read_Coordinates cfg env s) = Inr (TOUCHPAD_DATA_OK, x, y)"
  define N where "N = unat (NO_OF_POSITION_SAMPLES cfg)"
  define m where "m = press_held (irq_level env) (irq_reads s) N"
  note phase = sampling_phase_spec [of cfg env s, folded N_def, folded m_def]
  note out = TP_Read_Coordinates_outcome [of cfg env s, folded N_def, folded m_def]
  have full: "m = N"
    using ok by (simp add: out split: if_splits)
  have "x = x_pixel cfg (uint (negate_raw (ucast (sum_raw (raw_x env (miso_reads s)) N
               div NO_OF_POSITION_SAMPLES cfg))))"
    and "y = y_pixel cfg (uint (negate_raw (ucast (sum_raw (raw_y env (miso_reads s)) N
               div NO_OF_POSITION_SAMPLES cfg))))"
    using ok by (simp_all add: out split: if_splits)
  then show ?thesis
    by (simp add: phase full ucast_word_div flip: N_def)
qed

theorem averaging_truncates_witness:
  "outcome (TP_Read_Coordinates (test_config 2 1 1) (replay_controller [100, 7, 101, 7]) gpio_reset)
     = Inr (TOUCHPAD_DATA_OK, 247, 65436) \<and>
   calculating_y (fst (sampling_phase (test_config 2 1 1) (replay_controller [100, 7, 101, 7])
     gpio_reset)) = 201 \<and>
   (201 :: nat) div 2 = 100 \<and>
   y_pixel (test_config 2 1 1) (uint (negate_raw 100)) = 65436 \<and>
   y_pixel (test_config 2 1 1) (uint (negate_raw 101)) = 65435"
proof -
  define cfg where "cfg = test_config 2 1 1"
  define env where "env = replay_controller [100, 7, 101, 7]"
  have n: "unat (NO_OF_POSITION_SAMPLES cfg) = 2" "NO_OF_POSITION_SAMPLES cfg = 2"
    by (simp_all add: cfg_def test_config_def)
  have len: "length [100, 7, 101, 7 :: 16 word] = 4" by simp
  have ys: "raw_y env 0 0 = 100" "raw_y env 0 (Suc 0) = 101"
    unfolding env_def raw_replay len by simp_all
  have xs: "raw_x env 0 0 = 7" "raw_x env 0 (Suc 0) = 7"
    unfolding env_def raw_replay len by simp_all
  have two: "sum_raw f 2 = ucast (f 0) + ucast (f 1)" for f
    by (simp add: sum_raw_def upt_rec)
  have run: "outcome (TP_Read_Coordinates cfg env gpio_reset) = Inr (TOUCHPAD_DATA_OK, 247, 65436)"
    unfolding env_def TP_Read_Coordinates_replay
    unfolding env_def [symmetric]
    by (simp add: two xs ys cfg_def test_config_def x_pixel_def y_pixel_def negate_raw_def
        signed_divide_int_def)
  from averaging_truncates [OF run]
  have "calculating_y (fst (sampling_phase cfg env gpio_reset)) =
      sum_raw (raw_y env (miso_reads gpio_reset)) (unat (NO_OF_POSITION_SAMPLES cfg))"
    by simp
  then have "calculating_y (fst (sampling_phase cfg env gpio_reset)) = 201"
    by (simp add: n two gpio_reset_def ys)
  then show ?thesis
    using run unfolding cfg_def env_def
    by (simp add: test_config_def y_pixel_def negate_raw_def signed_divide_int_def)
qed

text \<open>
  Claim C1, amended. Let the budget be at least one, let neither accumulator wrap
  (budget times \<open>R_x\<close> and budget times \<open>R_y\<close> below \<open>2^32\<close>), let both translation
  divisors be non-zero, let the press line read low at every check of the call, and let every X
  answer be \<open>R_x\<close> and every Y answer be \<open>R_y\<close>. Then the call answers OK, and the
  coordinates are the linear transform of the 16-bit negations \<open>(2^16 - R_x) mod 2^16\<close>
  and \<open>(2^16 - R_y) mod 2^16\<close>, stored in 16 bits.
\<close>

theorem constant_samples_coordinates:
  assumes "NO_OF_POSITION_SAMPLES cfg \<noteq> 0"
    and "unat (NO_OF_POSITION_SAMPLES cfg) * unat R_x < 2 ^ 32"
    and "unat (NO_OF_POSITION_SAMPLES cfg) * unat R_y < 2 ^ 32"
    and "X_TRANSLATION cfg \<noteq> 0" and "Y_TRANSLATION cfg \<noteq> 0"
    and "\<forall>k\<le>unat (NO_OF_POSITION_SAMPLES cfg). \<not> irq_level env (irq_reads s + k)"
    and "\<forall>j<unat (NO_OF_POSITION_SAMPLES cfg).
           raw_x env (miso_reads s) j = R_x \<and> raw_y env (miso_reads s) j = R_y"
  shows "outcome (TP_Read_Coordinates cfg env s) =
     Inr (TOUCHPAD_DATA_OK,
          x_pixel cfg ((2 ^ 16 - uint R_x) mod 2 ^ 16),
          y_pixel cfg ((2 ^ 16 - uint R_y) mod 2 ^ 16))"
  using assms by (rule steady_outcome)

theorem constant_samples_coordinates_witness:
  "NO_OF_POSITION_SAMPLES (test_config 3 273 204) \<noteq> 0 \<and>
   unat (NO_OF_POSITION_SAMPLES (test_config 3 273 204)) * unat (273 :: 16 word) < 2 ^ 32 \<and>
   unat (NO_OF_POSITION_SAMPLES (test_config 3 273 204)) * unat (204 :: 16 word) < 2 ^ 32 \<and>
   X_TRANSLATION (test_config 3 273 204) \<noteq> 0 \<and> Y_TRANSLATION (test_config 3 273 204) \<noteq> 0 \<and>
   outcome (TP_Read_Coordinates (test_config 3 273 204) (replay_controller [204, 273]) gpio_reset)
     = Inr (TOUCHPAD_DATA_OK, 1, 320)"
proof -
  define cfg where "cfg = test_config 3 273 204"
  define env where "env = replay_controller [204, 273]"
  have cfg: "NO_OF_POSITION_SAMPLES cfg \<noteq> 0"
    "unat (NO_OF_POSITION_SAMPLES cfg) * unat (273 :: 16 word) < 2 ^ 32"
    "unat (NO_OF_POSITION_SAMPLES cfg) * unat (204 :: 16 word) < 2 ^ 32"
    "X_TRANSLATION cfg \<noteq> 0" "Y_TRANSLATION cfg \<noteq> 0"
    by (simp_all add: cfg_def test_config_def)
  have pressed: "\<forall>k\<le>unat (NO_OF_POSITION_SAMPLES cfg). \<not> irq_level env (irq_reads gpio_reset + k)"
    by (simp add: env_def replay_controller_def)
  have steady: "\<forall>j<unat (NO_OF_POSITION_SAMPLES cfg).
      raw_x env (miso_reads gpio_reset) j = 273 \<and> raw_y env (miso_reads gpio_reset) j = 204"
    by (simp add: env_def gpio_reset_def raw_replay_pair)
  have "outcome (TP_Read_Coordinates cfg env gpio_reset) =
     Inr (TOUCHPAD_DATA_OK, x_pixel cfg ((2 ^ 16 - uint (273 :: 16 word)) mod 2 ^ 16),
          y_pixel cfg ((2 ^ 16 - uint (204 :: 16 word)) mod 2 ^ 16))"
    by (rule constant_samples_coordinates [OF cfg pressed steady])
  then have "outcome (TP_Read_Coordinates cfg env gpio_reset) = Inr (TOUCHPAD_DATA_OK, 1, 320)"
    by (simp add: x_pixel_def y_pixel_def cfg_def test_config_def signed_divide_int_def)
  with cfg show ?thesis
    unfolding cfg_def env_def by simp
qed

text \<open>
  Two runs against claim C1 as it is worded. With a budget of one and the constant answers
  \<open>R_x = 273\<close>, \<open>R_y = 204\<close> the call returns \<open>(1, 320)\<close>, not the transform
  \<open>(239, 1)\<close> of the raw values themselves. With a budget of 65538 and the constant
  answers 65535 the accumulators wrap, the averages are 0 and the call returns
  \<open>(240, 0)\<close>, not the transform \<open>(239, 1)\<close> of the negated raw values. With an X
  translation of zero the transform divides by zero.
\<close>

theorem literal_formula_counterexample:
  "outcome (TP_Read_Coordinates (test_config 1 273 204) (replay_controller [204, 273]) gpio_reset)
     = Inr (TOUCHPAD_DATA_OK, 1, 320) \<and>
   outcome (TP_Read_Coordinates (test_config 1 273 204) (replay_controller [204, 273]) gpio_reset)
     \<noteq> Inr (TOUCHPAD_DATA_OK,
              x_pixel (test_config 1 273 204) (uint (273 :: 16 word)),
              y_pixel (test_config 1 273 204) (uint (204 :: 16 word))) \<and>
   outcome (TP_Read_Coordinates (test_config 65538 1 1) (replay_controller [65535, 65535])
      gpio_reset) = Inr (TOUCHPAD_DATA_OK, 240, 0) \<and>
   outcome (TP_Read_Coordinates (test_config 65538 1 1) (replay_controller [65535, 65535])
      gpio_reset)
     \<noteq> Inr (TOUCHPAD_DATA_OK,
              x_pixel (test_config 65538 1 1) ((2 ^ 16 - uint (65535 :: 16 word)) mod 2 ^ 16),
              y_pixel (test_config 65538 1 1) ((2 ^ 16 - uint (65535 :: 16 word)) mod 2 ^ 16)) \<and>
   outcome (TP_Read_Coordinates (test_config 1 0 204) (replay_controller [204, 273]) gpio_reset)
     = Inl TranslationDivisionByZero"
proof -
  have c: "outcome (TP_Read_Coordinates (test_config 1 0 204) (replay_controller [204, 273])
      gpio_reset) = Inl TranslationDivisionByZero"
    unfolding TP_Read_Coordinates_replay by (simp add: test_config_def)
  have a: "outcome (TP_Read_Coordinates (test_config 1 273 204) (replay_controller [204, 273])
      gpio_reset) = Inr (TOUCHPAD_DATA_OK, 1, 320)"
    by (rule replay_pair_outcome)
  have b: "outcome (TP_Read_Coordinates (test_config 65538 1 1) (replay_controller [65535, 65535])
      gpio_reset) = Inr (TOUCHPAD_DATA_OK, 240, 0)"
    by (simp add: TP_Read_Coordinates_replay raw_replay_pair sum_raw_same test_config_def
        x_pixel_def y_pixel_def negate_raw_def signed_divide_int_def)
  show ?thesis
    unfolding a b c by (simp add: x_pixel_def y_pixel_def test_config_def signed_divide_int_def)
qed

text \<open>
  Claim C10. If a call answers OK, and the next call, started in the state the first one
  left, answers OK too, and the data-in line shows the second call the same levels as it
  showed the first, then both calls return the same coordinates.
\<close>

theorem repeated_read_same_coordinates:
  assumes "TP_Read_Coordinates cfg env s = Inr (TOUCHPAD_DATA_OK, xy1, s1)"
    and "TP_Read_Coordinates cfg env s1 = Inr (TOUCHPAD_DATA_OK, xy2, s2)"
    and "\<forall>k. miso_level env (miso_reads s1 + k) = miso_level env (miso_reads s + k)"
  shows "xy2 = xy1"
proof -
  have first: "outcome (TP_Read_Coordinates cfg env s) = Inr (TOUCHPAD_DATA_OK, xy1)"
    and second: "outcome (TP_Read_Coordinates cfg env s1) = Inr (TOUCHPAD_DATA_OK, xy2)"
    using assms(1,2) by simp_all
  note same = raw_cong [OF assms(3)]
  show ?thesis
    using first second unfolding TP_Read_Coordinates_outcome same
    by (simp split: if_splits)
qed

theorem repeated_read_same_coordinates_witness:
  "TP_Read_Coordinates (test_config 1 273 204) (replay_controller [204, 273]) gpio_reset =
     Inr (TOUCHPAD_DATA_OK, (1, 320),
          snd (snd (projr (TP_Read_Coordinates (test_config 1 273 204)
             (replay_controller [204, 273]) gpio_reset)))) \<and>
   fst (projr (TP_Read_Coordinates (test_config 1 273 204) (replay_controller [204, 273])
          (snd (snd (projr (TP_Read_Coordinates (test_config 1 273 204)
             (replay_controller [204, 273]) gpio_reset)))))) = TOUCHPAD_DATA_OK \<and>
   fst (snd (projr (TP_Read_Coordinates (test_config 1 273 204) (replay_controller [204, 273])
          (snd (snd (projr (TP_Read_Coordinates (test_config 1 273 204)
             (replay_controller [204, 273]) gpio_reset))))))) = (1, 320)"
proof -
  define cfg where "cfg = test_config 1 273 204"
  define env where "env = replay_controller [204, 273]"
  define s1 where "s1 = snd (snd (projr (TP_Read_Coordinates cfg env gpio_reset)))"
  define xy2 where "xy2 = fst (snd (projr (TP_Read_Coordinates cfg env s1)))"
  define s2 where "s2 = snd (snd (projr (TP_Read_Coordinates cfg env s1)))"
  have first: "TP_Read_Coordinates cfg env gpio_reset = Inr (TOUCHPAD_DATA_OK, (1, 320), s1)"
    unfolding s1_def cfg_def env_def by (rule outcome_Inr) (rule replay_pair_outcome)
  have cfg: "NO_OF_POSITION_SAMPLES cfg \<noteq> 0"
    "unat (NO_OF_POSITION_SAMPLES cfg) * unat (273 :: 16 word) < 2 ^ 32"
    "unat (NO_OF_POSITION_SAMPLES cfg) * unat (204 :: 16 word) < 2 ^ 32"
    "X_TRANSLATION cfg \<noteq> 0" "Y_TRANSLATION cfg \<noteq> 0"
    by (simp_all add: cfg_def test_config_def)
  have "miso_reads s1 = miso_reads (snd (sampling_phase cfg env gpio_reset))"
    by (rule final_miso_reads [OF first])
  then have at: "miso_reads s1 = 32"
    by (simp add: sampling_phase_spec env_def cfg_def test_config_def gpio_reset_def
        replay_controller_def)
  have period: "miso_level env (32 + k) = miso_level env k" for k
  proof -
    have "(k + 2 * 16) div 16 = k div 16 + 2" "(k + 2 * 16) mod 16 = k mod 16"
      by (simp_all only: div_mult_self1 mod_mult_self1 zero_neq_numeral not_False_eq_True)
    then have "(32 + k) div 16 mod 2 = k div 16 mod 2" "(32 + k) mod 16 = k mod 16"
      by (simp_all add: add.commute)
    then show ?thesis
      by (simp add: env_def replay_controller_def flip: numeral_2_eq_2)
  qed
  have unchanged: "\<forall>k. miso_level env (miso_reads s1 + k) = miso_level env (miso_reads gpio_reset + k)"
    by (simp add: at period gpio_reset_def)
  have pressed: "\<forall>k\<le>unat (NO_OF_POSITION_SAMPLES cfg). \<not> irq_level env (irq_reads s1 + k)"
    by (simp add: env_def replay_controller_def)
  have "raw_x env (miso_reads s1) = raw_x env 0" "raw_y env (miso_reads s1) = raw_y env 0"
    using raw_cong [OF unchanged] by (simp_all add: gpio_reset_def)
  then have steady: "\<forall>j<unat (NO_OF_POSITION_SAMPLES cfg).
      raw_x env (miso_reads s1) j = 273 \<and> raw_y env (miso_reads s1) j = 204"
    by (simp add: env_def raw_replay_pair)
  have "\<exists>xy. outcome (TP_Read_Coordinates cfg env s1) = Inr (TOUCHPAD_DATA_OK, xy)"
    using steady_outcome [OF cfg pressed steady] by simp
  then obtain xy where "outcome (TP_Read_Coordinates cfg env s1) = Inr (TOUCHPAD_DATA_OK, xy)" ..
  then have "TP_Read_Coordinates cfg env s1 = Inr (TOUCHPAD_DATA_OK, xy, s2)"
    unfolding s2_def by (rule outcome_Inr)
  then have second: "TP_Read_Coordinates cfg env s1 = Inr (TOUCHPAD_DATA_OK, xy2, s2)"
    by (simp add: xy2_def)
  have same: "xy2 = (1, 320)"
    by (rule repeated_read_same_coordinates [OF first second unchanged])
  have "fst (projr (TP_Read_Coordinates cfg env s1)) = TOUCHPAD_DATA_OK"
    and "fst (snd (projr (TP_Read_Coordinates cfg env s1))) = (1, 320)"
    by (simp_all add: second same)
  with first show ?thesis
    unfolding s1_def cfg_def env_def by blast
qed

end
